theory Spec2Isabelle
  imports Complex_Main
begin

section \<open>Numbers and constants\<close>

text \<open>
  The game is written in TypeScript; every numeric field has type \<open>number\<close>.
  Positions and velocities are modelled as rationals (all constants of the game are
  dyadic, so the arithmetic of the simulation is exact); the counters \<open>lives\<close>,
  \<open>score\<close>, \<open>gameTime\<close>, \<open>hitCooldown\<close>, \<open>totalPipes\<close> and
  \<open>damageTicks\<close> start as integers and only change by integer amounts, and are
  modelled as \<open>int\<close>. The gap fields of a pipe come out of \<open>Number(...)\<close> applied to
  level text and may be \<open>NaN\<close>; they are modelled by \<open>jsnum\<close>. Rounding and
  infinities are outside the model.
\<close>

datatype jsnum = NaN | Num rat

fun jmul :: "jsnum \<Rightarrow> rat \<Rightarrow> jsnum" where
  "jmul NaN c = NaN"
| "jmul (Num a) c = Num (a * c)"

fun jdiv :: "jsnum \<Rightarrow> rat \<Rightarrow> jsnum" where
  "jdiv NaN c = NaN"
| "jdiv (Num a) c = Num (a / c)"

fun jadd :: "jsnum \<Rightarrow> jsnum \<Rightarrow> jsnum" where
  "jadd (Num a) (Num b) = Num (a + b)"
| "jadd _ _ = NaN"

fun jsub :: "jsnum \<Rightarrow> jsnum \<Rightarrow> jsnum" where
  "jsub (Num a) (Num b) = Num (a - b)"
| "jsub _ _ = NaN"

text \<open>Comparisons with \<open>NaN\<close> are false.\<close>

fun jle :: "jsnum \<Rightarrow> jsnum \<Rightarrow> bool" where
  "jle (Num a) (Num b) = (a \<le> b)"
| "jle _ _ = False"

fun jlt :: "jsnum \<Rightarrow> jsnum \<Rightarrow> bool" where
  "jlt (Num a) (Num b) = (a < b)"
| "jlt _ _ = False"

text \<open>\<open>Math.max\<close> returns \<open>NaN\<close> as soon as one argument is \<open>NaN\<close>.\<close>

fun jmax :: "jsnum \<Rightarrow> jsnum \<Rightarrow> jsnum" where
  "jmax (Num a) (Num b) = Num (max a b)"
| "jmax _ _ = NaN"

definition CANVAS_WIDTH :: rat where "CANVAS_WIDTH = 600"
definition CANVAS_HEIGHT :: rat where "CANVAS_HEIGHT = 400"
definition Birb_WIDTH :: rat where "Birb_WIDTH = 42"
definition Birb_HEIGHT :: rat where "Birb_HEIGHT = 30"
definition PIPE_WIDTH :: rat where "PIPE_WIDTH = 120"
definition PIPE_SPEED :: rat where "PIPE_SPEED = 3"
definition PIPE_SPAWN_DISTANCE :: rat where "PIPE_SPAWN_DISTANCE = 250"
definition GRAVITY :: rat where "GRAVITY = 1 / 2"
definition JUMP_VELOCITY :: rat where "JUMP_VELOCITY = - 5"
definition HIT_COOLDOWN_TICKS :: int where "HIT_COOLDOWN_TICKS = 30"
definition DAMAGE_TICKS :: int where "DAMAGE_TICKS = 30"

section \<open>State\<close>

text \<open>
  Optional fields (\<open>scored?\<close>, \<open>dead?\<close>, \<open>ghosts?\<close>) are options: \<open>None\<close> is
  \<open>undefined\<close>. The field \<open>time\<close> of a pipe is \<open>undefined\<close> when the data line
  has fewer than three fields.
\<close>

record Bird =
  bird_x :: rat
  bird_y :: rat
  bird_velocity :: rat

record Ghost =
  ghost_x :: rat
  ghost_y :: rat
  ghost_velocity :: rat
  dead :: "bool option"

record Pipe =
  pipe_id :: int
  pipe_x :: rat
  gapY :: jsnum
  gapHeight :: jsnum
  time :: "jsnum option"
  scored :: "bool option"

record State =
  gameEnd :: bool
  won :: bool
  bird :: Bird
  ghosts :: "Ghost list option"
  pipes :: "Pipe list"
  lives :: int
  score :: int
  gameTime :: int
  hitCooldown :: int
  totalPipes :: int
  damageTicks :: int

definition initialState :: State where
  "initialState =
     \<lparr> gameEnd = False, won = False,
       bird = \<lparr> bird_x = CANVAS_WIDTH * (3 / 10), bird_y = CANVAS_HEIGHT / 2,
                bird_velocity = 0 \<rparr>,
       ghosts = None, pipes = [], lives = 3, score = 0, gameTime = 0, hitCooldown = 0,
       totalPipes = 0, damageTicks = 0 \<rparr>"

definition initialGameState :: "Pipe list \<Rightarrow> State" where
  "initialGameState pipeData =
     initialState \<lparr> pipes := pipeData, totalPipes := int (length pipeData) \<rparr>"

text \<open>JavaScript truthiness of an optional boolean field.\<close>

definition truthy :: "bool option \<Rightarrow> bool" where
  "truthy b = (b = Some True)"

definition clamp :: "rat \<Rightarrow> rat \<Rightarrow> rat \<Rightarrow> rat" where
  "clamp v mn mx = max mn (min mx v)"

section \<open>The physics tick\<close>

text \<open>
  The reducer of \<open>physics$\<close>. Its local constants are given as functions of the state,
  in the order of the source.
\<close>

definition tick_newVelocity :: "State \<Rightarrow> rat" where
  "tick_newVelocity s = bird_velocity (bird s) + GRAVITY"

definition tick_clampedY :: "State \<Rightarrow> rat" where
  "tick_clampedY s =
     clamp (bird_y (bird s) + tick_newVelocity s) (Birb_HEIGHT / 2)
       (CANVAS_HEIGHT - Birb_HEIGHT / 2)"

definition tick_updatedPipes :: "State \<Rightarrow> Pipe list" where
  "tick_updatedPipes s =
     filter (\<lambda>pipe. pipe_x pipe > - PIPE_WIDTH)
       (map (\<lambda>pipe. pipe \<lparr> pipe_x := pipe_x pipe - PIPE_SPEED \<rparr>) (pipes s))"

definition justPassed :: "rat \<Rightarrow> Pipe \<Rightarrow> bool" where
  "justPassed birdX p = (\<not> truthy (scored p) \<and> pipe_x p + PIPE_WIDTH / 2 < birdX)"

definition insideGap :: "rat \<Rightarrow> Pipe \<Rightarrow> bool" where
  "insideGap clampedY p =
     (let gapTop = jsub (gapY p) (jdiv (gapHeight p) 2);
          gapBottom = jadd (gapY p) (jdiv (gapHeight p) 2)
      in jle gapTop (Num clampedY) \<and> jle (Num clampedY) gapBottom)"

text \<open>
  The callback of \<open>updatedPipes.map\<close> updates the two local variables
  \<open>addedScore\<close> and \<open>pipeCenterCollision\<close> while it walks the pipes; the model
  threads both through the recursion and returns them with the mapped list.
\<close>

fun scorePipes :: "rat \<Rightarrow> rat \<Rightarrow> Pipe list \<Rightarrow> int \<Rightarrow> bool \<Rightarrow> int \<times> bool \<times> Pipe list" where
  "scorePipes birdX clampedY [] addedScore pipeCenterCollision =
     (addedScore, pipeCenterCollision, [])"
| "scorePipes birdX clampedY (p # ps) addedScore pipeCenterCollision =
     (if justPassed birdX p then
        (if insideGap clampedY p then
           (case scorePipes birdX clampedY ps (addedScore + 1) pipeCenterCollision of
              (a, c, qs) \<Rightarrow> (a, c, p \<lparr> scored := Some True \<rparr> # qs))
         else
           (case scorePipes birdX clampedY ps addedScore True of
              (a, c, qs) \<Rightarrow> (a, c, p \<lparr> scored := Some True \<rparr> # qs)))
      else
        (case scorePipes birdX clampedY ps addedScore pipeCenterCollision of
           (a, c, qs) \<Rightarrow> (a, c, p # qs)))"

definition tick_scoring :: "State \<Rightarrow> int \<times> bool \<times> Pipe list" where
  "tick_scoring s =
     scorePipes (bird_x (bird s)) (tick_clampedY s) (tick_updatedPipes s) 0 False"

definition tick_addedScore :: "State \<Rightarrow> int" where
  "tick_addedScore s = fst (tick_scoring s)"

definition tick_pipeCenterCollision :: "State \<Rightarrow> bool" where
  "tick_pipeCenterCollision s = fst (snd (tick_scoring s))"

definition tick_scoredPipes :: "State \<Rightarrow> Pipe list" where
  "tick_scoredPipes s = snd (snd (tick_scoring s))"

definition tick_collided :: "State \<Rightarrow> bool" where
  "tick_collided s =
     (let collided = (tick_clampedY s \<le> Birb_HEIGHT / 2
                      \<or> tick_clampedY s \<ge> CANVAS_HEIGHT - Birb_HEIGHT / 2)
      in if \<not> collided \<and> tick_pipeCenterCollision s then True else collided)"

definition tick_nextCooldown :: "State \<Rightarrow> int" where
  "tick_nextCooldown s = max 0 (hitCooldown s - 1)"

definition tick_nextLives :: "State \<Rightarrow> int" where
  "tick_nextLives s =
     (if tick_collided s \<and> tick_nextCooldown s = 0 then max 0 (lives s - 1) else lives s)"

definition tick_nextCooldownOut :: "State \<Rightarrow> int" where
  "tick_nextCooldownOut s =
     (if tick_collided s \<and> tick_nextCooldown s = 0 then HIT_COOLDOWN_TICKS
      else tick_nextCooldown s)"

definition tick_newScore :: "State \<Rightarrow> int" where
  "tick_newScore s = score s + tick_addedScore s"

definition tick_allPassed :: "State \<Rightarrow> bool" where
  "tick_allPassed s =
     (tick_newScore s \<ge> 20 \<or> list_all (\<lambda>p. truthy (scored p)) (tick_scoredPipes s))"

definition physics :: "State \<Rightarrow> State" where
  "physics s =
     (if gameEnd s then s
      else s \<lparr> gameTime := gameTime s + 1,
               bird := (bird s) \<lparr> bird_y := tick_clampedY s,
                                  bird_velocity :=
                                    (if tick_nextLives s = 0 then 0 else tick_newVelocity s) \<rparr>,
               pipes := tick_scoredPipes s,
               lives := tick_nextLives s,
               hitCooldown := tick_nextCooldownOut s,
               damageTicks :=
                 (if tick_collided s \<and> tick_nextCooldown s = 0 then DAMAGE_TICKS
                  else max 0 (damageTicks s - 1)),
               score := tick_newScore s,
               gameEnd := (if tick_nextLives s = 0 then True else gameEnd s \<or> tick_allPassed s),
               won := (if tick_nextLives s > 0 \<and> tick_allPassed s then True else won s) \<rparr>)"

text \<open>The reducer of the player's flap.\<close>

definition playerFlapReducer :: "State \<Rightarrow> State" where
  "playerFlapReducer s =
     (if gameEnd s then s
      else s \<lparr> bird := (bird s) \<lparr> bird_velocity := JUMP_VELOCITY \<rparr> \<rparr>)"

section \<open>Ghosts and the globals of the page\<close>

text \<open>
  The ghost variant keeps the history of earlier runs in properties of \<open>window\<close>:
  the flap ticks of every recorded run, their starting heights and their ending ticks,
  together with the starting height of the current run and the tick at which the last
  game ended. Each is \<open>undefined\<close> until first written.
\<close>

record Window =
  allRunFlapTicksArrays :: "int list list option"
  allRunStartYs :: "rat list option"
  allRunEndTicks :: "int list option"
  currentRunStartY :: "rat option"
  lastGameEndTick :: "int option"

text \<open>\<open>arr?.[i]\<close>: \<open>undefined\<close> when the array is undefined or the index is out of range.\<close>

definition index_opt :: "'a list option \<Rightarrow> nat \<Rightarrow> 'a option" where
  "index_opt arr i =
     (case arr of None \<Rightarrow> None
      | Some xs \<Rightarrow> if i < length xs then Some (xs ! i) else None)"

text \<open>
  The physics tick also writes \<open>__lastGameEndTick\<close> when the game ends on this frame.
\<close>

definition physics_window :: "State \<Rightarrow> Window \<Rightarrow> Window" where
  "physics_window s w =
     (if \<not> gameEnd s \<and> gameEnd (physics s)
      then w \<lparr> lastGameEndTick := Some (gameTime (physics s)) \<rparr> else w)"

text \<open>
  Both ghost reducers start from the ghosts of the state or, when there are none yet,
  from one fresh ghost per recorded run. \<open>allTickLists\<close> is read once when the run
  is set up; the start and end arrays are read from \<open>window\<close> at every event.
\<close>

definition baseGhosts :: "int list list option \<Rightarrow> Window \<Rightarrow> State \<Rightarrow> Ghost list" where
  "baseGhosts allTickLists w s =
     (let needed = (case allTickLists of None \<Rightarrow> 0 | Some l \<Rightarrow> length l);
          startArr = allRunStartYs w;
          fresh = map (\<lambda>i. \<lparr> ghost_x = bird_x (bird s),
                              ghost_y = (case index_opt startArr i of Some v \<Rightarrow> v
                                         | None \<Rightarrow> CANVAS_HEIGHT / 2),
                              ghost_velocity = 0, dead = None \<rparr>) [0..<needed]
      in case ghosts s of
           None \<Rightarrow> fresh
         | Some gs \<Rightarrow> if gs \<noteq> [] then gs else fresh)"

definition ghostTick :: "Window \<Rightarrow> State \<Rightarrow> nat \<times> Ghost \<Rightarrow> Ghost" where
  "ghostTick w s ig =
     (case ig of (i, g) \<Rightarrow>
        (case index_opt (allRunEndTicks w) i of
           Some endTick \<Rightarrow>
             if gameTime s \<ge> endTick then g \<lparr> dead := Some True \<rparr>
             else (let v = ghost_velocity g + GRAVITY;
                       y = clamp (ghost_y g + v) (Birb_HEIGHT / 2)
                             (CANVAS_HEIGHT - Birb_HEIGHT / 2)
                   in g \<lparr> ghost_y := y, ghost_velocity := v \<rparr>)
         | None \<Rightarrow>
             (let v = ghost_velocity g + GRAVITY;
                  y = clamp (ghost_y g + v) (Birb_HEIGHT / 2)
                        (CANVAS_HEIGHT - Birb_HEIGHT / 2)
              in g \<lparr> ghost_y := y, ghost_velocity := v \<rparr>)))"

definition ghostReducerPhysics :: "int list list option \<Rightarrow> Window \<Rightarrow> State \<Rightarrow> State" where
  "ghostReducerPhysics allTickLists w s =
     (if gameEnd s then s
      else s \<lparr> ghosts :=
                 Some (map (ghostTick w s) (enumerate 0 (baseGhosts allTickLists w s))) \<rparr>)"

definition ghostReducerFlap :: "int list list option \<Rightarrow> Window \<Rightarrow> nat \<Rightarrow> State \<Rightarrow> State" where
  "ghostReducerFlap allTickLists w idx s =
     (let base = baseGhosts allTickLists w s;
          jumped = base [idx := (base ! idx) \<lparr> ghost_velocity := JUMP_VELOCITY \<rparr>]
      in s \<lparr> ghosts :=
               Some (if idx < length base then
                       (case index_opt (allRunEndTicks w) idx of
                          None \<Rightarrow> jumped
                        | Some endTick \<Rightarrow> if gameTime s < endTick then jumped else base)
                     else base) \<rparr>)"

text \<open>
  The subscriber that records a finished run. The stream before it lets only non-empty
  arrays through.
\<close>

definition sameTicks :: "int list \<Rightarrow> int list \<Rightarrow> bool" where
  "sameTicks old arr =
     (length old = length arr \<and> list_all (\<lambda>(v, a). v = a) (zip old arr))"

definition recordRun :: "int list \<Rightarrow> Window \<Rightarrow> Window" where
  "recordRun arr w =
     (let all = allRunFlapTicksArrays w;
          exists = (case all of None \<Rightarrow> False | Some a \<Rightarrow> list_ex (\<lambda>old. sameTicks old arr) a);
          w1 = w \<lparr> allRunFlapTicksArrays :=
                     (if exists then all
                      else (case all of Some a \<Rightarrow> Some (a @ [arr]) | None \<Rightarrow> Some [arr])) \<rparr>;
          w2 = (case currentRunStartY w1 of
                  Some startY \<Rightarrow>
                    w1 \<lparr> allRunStartYs :=
                           Some ((case allRunStartYs w1 of Some ys \<Rightarrow> ys | None \<Rightarrow> []) @ [startY]) \<rparr>
                | None \<Rightarrow> w1)
      in (case lastGameEndTick w2 of
            Some endTick \<Rightarrow>
              w2 \<lparr> allRunEndTicks :=
                     Some ((case allRunEndTicks w2 of Some ends \<Rightarrow> ends | None \<Rightarrow> []) @ [endTick]) \<rparr>
          | None \<Rightarrow> w2))"


section \<open>Runs\<close>

text \<open>
  A run folds the merged reducer streams over the initial state (\<open>scan\<close>). A ghost
  event carries the value of \<open>window\<close> that its reducer reads.
\<close>

datatype event = Tick | Flap | GhostTick Window | GhostFlap nat Window

fun step :: "int list list option \<Rightarrow> event \<Rightarrow> State \<Rightarrow> State" where
  "step atl Tick s = physics s"
| "step atl Flap s = playerFlapReducer s"
| "step atl (GhostTick w) s = ghostReducerPhysics atl w s"
| "step atl (GhostFlap idx w) s = ghostReducerFlap atl w idx s"

fun run :: "int list list option \<Rightarrow> State \<Rightarrow> event list \<Rightarrow> State" where
  "run atl s [] = s"
| "run atl s (e # es) = run atl (step atl e s) es"

section \<open>The earlier variant with rectangle collisions\<close>

text \<open>
  The version of \<open>main.ts\<close> before scoring was added tests the bird's rectangle
  against both pipe rectangles and has the same cooldown-gated loss of lives. Its state
  has no \<open>won\<close>, \<open>totalPipes\<close> or \<open>damageTicks\<close>; the reducer copies the state with
  \<open>...s\<close>, so on the record of this theory it leaves those fields as they are. Its
  jump velocity is \<open>-7\<close>.
\<close>

definition JUMP_VELOCITY_rect :: rat where "JUMP_VELOCITY_rect = - 7"

definition rectsIntersect ::
  "jsnum \<Rightarrow> jsnum \<Rightarrow> jsnum \<Rightarrow> jsnum \<Rightarrow> jsnum \<Rightarrow> jsnum \<Rightarrow> jsnum \<Rightarrow> jsnum \<Rightarrow> bool" where
  "rectsIntersect ax ay aw ah bx by bw bh =
     (\<not> (jle (jadd ax aw) bx \<or> jle (jadd bx bw) ax \<or> jle (jadd ay ah) by
         \<or> jle (jadd by bh) ay))"

definition pipeHit :: "rat \<Rightarrow> rat \<Rightarrow> Pipe \<Rightarrow> bool" where
  "pipeHit birdX birdY p =
     (let topH = jmax (Num 0) (jsub (gapY p) (jdiv (gapHeight p) 2));
          bottomY = jadd (gapY p) (jdiv (gapHeight p) 2);
          bottomH = jmax (Num 0) (jsub (Num CANVAS_HEIGHT) bottomY);
          topHit = (jlt (Num 0) topH
                    \<and> rectsIntersect (Num birdX) (Num birdY) (Num Birb_WIDTH) (Num Birb_HEIGHT)
                         (Num (pipe_x p)) (Num 0) (Num PIPE_WIDTH) topH);
          bottomHit = (jlt (Num 0) bottomH
                       \<and> rectsIntersect (Num birdX) (Num birdY) (Num Birb_WIDTH)
                            (Num Birb_HEIGHT) (Num (pipe_x p)) bottomY (Num PIPE_WIDTH) bottomH)
      in topHit \<or> bottomHit)"

text \<open>The \<open>for\<close> loop over the pipes stops at the first hit.\<close>

fun pipesCollide :: "rat \<Rightarrow> rat \<Rightarrow> Pipe list \<Rightarrow> bool" where
  "pipesCollide birdX birdY [] = False"
| "pipesCollide birdX birdY (p # ps) =
     (if pipeHit birdX birdY p then True else pipesCollide birdX birdY ps)"

definition rect_collided :: "State \<Rightarrow> bool" where
  "rect_collided s =
     (let birdX = bird_x (bird s) - Birb_WIDTH / 2;
          birdY = tick_clampedY s - Birb_HEIGHT / 2;
          collided = (tick_clampedY s \<le> Birb_HEIGHT / 2
                      \<or> tick_clampedY s \<ge> CANVAS_HEIGHT - Birb_HEIGHT / 2)
      in if \<not> collided then pipesCollide birdX birdY (tick_updatedPipes s) else collided)"

definition rect_nextLives :: "State \<Rightarrow> int" where
  "rect_nextLives s =
     (if rect_collided s \<and> tick_nextCooldown s = 0 then max 0 (lives s - 1) else lives s)"

definition rect_nextCooldownOut :: "State \<Rightarrow> int" where
  "rect_nextCooldownOut s =
     (if rect_collided s \<and> tick_nextCooldown s = 0 then HIT_COOLDOWN_TICKS
      else tick_nextCooldown s)"

definition physics_rect :: "State \<Rightarrow> State" where
  "physics_rect s =
     (if gameEnd s then s
      else s \<lparr> gameTime := gameTime s + 1,
               bird := (bird s) \<lparr> bird_y := tick_clampedY s,
                                  bird_velocity :=
                                    (if rect_nextLives s = 0 then 0 else tick_newVelocity s) \<rparr>,
               pipes := tick_updatedPipes s,
               lives := rect_nextLives s,
               hitCooldown := rect_nextCooldownOut s,
               gameEnd := (if rect_nextLives s = 0 then True else gameEnd s) \<rparr>)"

definition flapReducer_rect :: "State \<Rightarrow> State" where
  "flapReducer_rect s =
     (if gameEnd s then s
      else s \<lparr> bird := (bird s) \<lparr> bird_velocity := JUMP_VELOCITY_rect \<rparr> \<rparr>)"

section \<open>Level parsing\<close>

text \<open>
  \<open>parsePipeData\<close> trims the text, splits it into lines, skips the header and turns
  every further line into a pipe. The source has no \<open>throw\<close>: the result type names
  the failure of the specification, and every path of the code returns \<open>Inr\<close>.
  Strings are ASCII texts. \<open>Number\<close> is the conversion of the language; the parser
  takes it as a parameter, and every theorem about parsing holds for any conversion.
  \<open>Number_dec\<close> below is its decimal fragment (optional sign, digits, optional
  fraction, surrounding white space, the empty string as 0; everything else is
  \<open>NaN\<close>). It leaves out exponents, prefixed literals and \<open>Infinity\<close>, and serves
  to read the example levels.
\<close>

datatype level_error = MalformedLevel

definition isWhiteSpace :: "char \<Rightarrow> bool" where
  "isWhiteSpace c = (c \<in> set [CHR 0x09, CHR 0x0A, CHR 0x0B, CHR 0x0C, CHR 0x0D, CHR 0x20])"

definition trim :: "string \<Rightarrow> string" where
  "trim str = rev (dropWhile isWhiteSpace (rev (dropWhile isWhiteSpace str)))"

fun splitOn :: "char \<Rightarrow> string \<Rightarrow> string list" where
  "splitOn sep [] = [[]]"
| "splitOn sep (c # cs) =
     (if c = sep then [] # splitOn sep cs
      else (case splitOn sep cs of [] \<Rightarrow> [[c]] | l # ls \<Rightarrow> (c # l) # ls))"

text \<open>\<open>undefined * c\<close> is \<open>NaN\<close>.\<close>

definition times_opt :: "jsnum option \<Rightarrow> rat \<Rightarrow> jsnum" where
  "times_opt v c = (case v of None \<Rightarrow> NaN | Some a \<Rightarrow> jmul a c)"

definition parseLine :: "(string \<Rightarrow> jsnum) \<Rightarrow> nat \<Rightarrow> string \<Rightarrow> Pipe" where
  "parseLine Number i line =
     (let nums = map Number (splitOn CHR '','' line);
          gapY = index_opt (Some nums) 0;
          gapHeight = index_opt (Some nums) 1;
          time = index_opt (Some nums) 2
      in \<lparr> pipe_id = int i - 1,
           pipe_x = CANVAS_WIDTH + (of_nat i - 1) * PIPE_SPAWN_DISTANCE,
           gapY = times_opt gapY CANVAS_HEIGHT,
           gapHeight = times_opt gapHeight CANVAS_HEIGHT,
           time = time, scored = None \<rparr>)"

function parseLoop :: "(string \<Rightarrow> jsnum) \<Rightarrow> string list \<Rightarrow> nat \<Rightarrow> Pipe list \<Rightarrow> Pipe list" where
  "parseLoop Number lines i out =
     (if i < length lines
      then parseLoop Number lines (i + 1) (out @ [parseLine Number i (lines ! i)])
      else out)"
  by pat_completeness auto
termination
  by (relation "measure (\<lambda>(Number, lines, i, out). length lines - i)") auto

definition parsePipeData :: "(string \<Rightarrow> jsnum) \<Rightarrow> string \<Rightarrow> level_error + Pipe list" where
  "parsePipeData Number csvContent =
     (let lines = splitOn CHR 0x0A (trim csvContent)
      in Inr (parseLoop Number lines 1 []))"

definition isDigit :: "char \<Rightarrow> bool" where
  "isDigit c = (c \<in> set ''0123456789'')"

definition digitsValue :: "string \<Rightarrow> nat" where
  "digitsValue ds = foldl (\<lambda>a c. 10 * a + (of_char c - 48)) 0 ds"

definition Number_dec :: "string \<Rightarrow> jsnum" where
  "Number_dec str =
     (let t = trim str in
      if t = [] then Num 0
      else
        (let sgn = (if hd t = CHR ''-'' then - 1 else 1);
             body = (if hd t = CHR ''-'' \<or> hd t = CHR ''+'' then tl t else t);
             ip = takeWhile isDigit body;
             rest = dropWhile isDigit body
         in case rest of
              [] \<Rightarrow> if ip = [] then NaN else Num (sgn * of_nat (digitsValue ip))
            | c # fp \<Rightarrow>
                if c = CHR ''.'' \<and> list_all isDigit fp \<and> (ip \<noteq> [] \<or> fp \<noteq> [])
                then Num (sgn * (of_nat (digitsValue ip)
                                 + of_nat (digitsValue fp) / 10 ^ length fp))
                else NaN))"

text \<open>
  The data lines of a level text (all lines after the header) and the number read from
  field \<open>k\<close> of a line; \<open>None\<close> when the line has no such field.
\<close>

definition dataLines :: "string \<Rightarrow> string list" where
  "dataLines csvContent = tl (splitOn CHR 0x0A (trim csvContent))"

definition fieldOf :: "(string \<Rightarrow> jsnum) \<Rightarrow> string \<Rightarrow> nat \<Rightarrow> jsnum option" where
  "fieldOf Number line k = index_opt (Some (map Number (splitOn CHR '','' line))) k"

section \<open>Obstacles passed inside their gap\<close>




section \<open>Example levels and runs\<close>

text \<open>
  A level with one obstacle whose gap is near the top of the screen, and runs on it. In
  the first the player flaps once at the start and then lets the bird fall: it reaches
  the floor and loses a life on tick 39; after 68 ticks the cooldown has one tick left;
  after 98 ticks one life is left and the cooldown has one tick left again; tick 99
  takes the last life. In the second the player flaps every 20 ticks for 160 ticks,
  which keeps the bird in the air until the obstacle's centre reaches it.
\<close>

definition example_pipe :: Pipe where
  "example_pipe =
     \<lparr> pipe_id = 0, pipe_x = 600, gapY = Num 40, gapHeight = Num 40, time = Some (Num 1),
       scored = None \<rparr>"

definition example_level :: string where
  "example_level = ''gap_y,gap_height,time'' @ [CHR 0x0A] @ ''0.1,0.1,1''"

definition header_only_level :: string where
  "header_only_level = ''gap_y,gap_height,time''"

definition malformed_level :: string where
  "malformed_level = ''gap_y,gap_height,time'' @ [CHR 0x0A] @ ''abc''"

definition floor_state :: State where
  "floor_state = run None (initialGameState [example_pipe]) (Flap # replicate 68 Tick)"

definition last_life_state :: State where
  "last_life_state = run None (initialGameState [example_pipe]) (Flap # replicate 98 Tick)"

definition lost_state :: State where
  "lost_state = run None (initialGameState [example_pipe]) (Flap # replicate 99 Tick)"

definition flapping_events :: "event list" where
  "flapping_events = concat (replicate 8 (Flap # replicate 20 Tick))"

definition approach_state :: State where
  "approach_state = run None (initialGameState [example_pipe]) flapping_events"



text \<open>
  The globals at program start, the globals when the first of these runs (one flap, at
  tick 0) has just ended at tick 99, and the globals after that run has been recorded.
\<close>

definition initialWindow :: Window where
  "initialWindow =
     \<lparr> allRunFlapTicksArrays = None, allRunStartYs = None, allRunEndTicks = None,
       currentRunStartY = None, lastGameEndTick = None \<rparr>"

definition window_at_first_end :: Window where
  "window_at_first_end =
     \<lparr> allRunFlapTicksArrays = None, allRunStartYs = None, allRunEndTicks = None,
       currentRunStartY = None, lastGameEndTick = Some 99 \<rparr>"

definition window_after_first_run :: Window where
  "window_after_first_run =
     \<lparr> allRunFlapTicksArrays = Some [[0]], allRunStartYs = None,
       allRunEndTicks = Some [99], currentRunStartY = None, lastGameEndTick = Some 99 \<rparr>"

section \<open>Evaluation rules\<close>


lemmas game_consts =
  CANVAS_WIDTH_def CANVAS_HEIGHT_def Birb_WIDTH_def Birb_HEIGHT_def PIPE_WIDTH_def
  PIPE_SPEED_def PIPE_SPAWN_DISTANCE_def GRAVITY_def JUMP_VELOCITY_def
  HIT_COOLDOWN_TICKS_def DAMAGE_TICKS_def

lemmas tick_defs =
  physics_def tick_nextLives_def tick_nextCooldownOut_def tick_nextCooldown_def
  tick_collided_def tick_clampedY_def tick_newVelocity_def tick_allPassed_def
  tick_newScore_def tick_addedScore_def tick_scoredPipes_def tick_pipeCenterCollision_def
  tick_scoring_def tick_updatedPipes_def clamp_def justPassed_def insideGap_def truthy_def

lemma replicate_numeral_unfold:
  "replicate (numeral k) x = x # replicate (pred_numeral k) x"
  by (simp add: numeral_eq_Suc)

subsection \<open>Fields of the state after a tick\<close>

lemma physics_ended: "gameEnd s \<Longrightarrow> physics s = s"
  by (simp add: physics_def)

lemma physics_lives: "\<not> gameEnd s \<Longrightarrow> lives (physics s) = tick_nextLives s"
  by (simp add: physics_def)

lemma physics_hitCooldown: "\<not> gameEnd s \<Longrightarrow> hitCooldown (physics s) = tick_nextCooldownOut s"
  by (simp add: physics_def)

lemma physics_gameEnd:
  "\<not> gameEnd s \<Longrightarrow> gameEnd (physics s) = (tick_nextLives s = 0 \<or> tick_allPassed s)"
  by (simp add: physics_def)

lemma physics_won:
  "\<not> gameEnd s \<Longrightarrow> won (physics s) = ((tick_nextLives s > 0 \<and> tick_allPassed s) \<or> won s)"
  by (auto simp: physics_def)

lemma physics_score: "\<not> gameEnd s \<Longrightarrow> score (physics s) = tick_newScore s"
  by (simp add: physics_def)

lemma physics_pipes: "\<not> gameEnd s \<Longrightarrow> pipes (physics s) = tick_scoredPipes s"
  by (simp add: physics_def)

lemma run_append: "run atl s (es @ fs) = run atl (run atl s es) fs"
  by (induction es arbitrary: s) simp_all

lemma run_snoc: "run atl s (es @ [e]) = step atl e (run atl s es)"
  by (simp add: run_append)

subsection \<open>Example states\<close>

lemma floor_state_eq:
  "floor_state =
     \<lparr> gameEnd = False, won = False,
       bird = \<lparr> bird_x = 180, bird_y = 385, bird_velocity = 29 \<rparr>, ghosts = None,
       pipes = [\<lparr> pipe_id = 0, pipe_x = 396, gapY = Num 40, gapHeight = Num 40,
                  time = Some (Num 1), scored = None \<rparr>],
       lives = 2, score = 0, gameTime = 68, hitCooldown = 1, totalPipes = 1,
       damageTicks = 1 \<rparr>"
  unfolding floor_state_def example_pipe_def initialGameState_def initialState_def
  by (simp add: tick_defs game_consts replicate_numeral_unfold playerFlapReducer_def)

lemma last_life_state_from_floor: "last_life_state = run None floor_state (replicate 30 Tick)"
proof -
  have "Flap # replicate 98 Tick = (Flap # replicate 68 Tick) @ replicate 30 Tick"
    by (simp add: replicate_add [symmetric])
  then show ?thesis
    by (simp add: last_life_state_def floor_state_def run_append)
qed

lemma last_life_state_eq:
  "last_life_state =
     \<lparr> gameEnd = False, won = False,
       bird = \<lparr> bird_x = 180, bird_y = 385, bird_velocity = 44 \<rparr>, ghosts = None,
       pipes = [\<lparr> pipe_id = 0, pipe_x = 306, gapY = Num 40, gapHeight = Num 40,
                  time = Some (Num 1), scored = None \<rparr>],
       lives = 1, score = 0, gameTime = 98, hitCooldown = 1, totalPipes = 1,
       damageTicks = 1 \<rparr>"
  unfolding last_life_state_from_floor floor_state_eq
  by (simp add: tick_defs game_consts replicate_numeral_unfold)

lemma lost_state_from_last_life: "lost_state = physics last_life_state"
proof -
  have "Flap # replicate 99 Tick = (Flap # replicate 98 Tick) @ [Tick]"
    by (simp add: replicate_numeral_unfold)
  then show ?thesis
    by (simp add: lost_state_def last_life_state_def run_append)
qed

lemma lost_state_eq:
  "lost_state =
     \<lparr> gameEnd = True, won = False,
       bird = \<lparr> bird_x = 180, bird_y = 385, bird_velocity = 0 \<rparr>, ghosts = None,
       pipes = [\<lparr> pipe_id = 0, pipe_x = 303, gapY = Num 40, gapHeight = Num 40,
                  time = Some (Num 1), scored = None \<rparr>],
       lives = 0, score = 0, gameTime = 99, hitCooldown = 30, totalPipes = 1,
       damageTicks = 30 \<rparr>"
  unfolding lost_state_from_last_life last_life_state_eq
  by (simp add: tick_defs game_consts)

lemma approach_run:
  "run None
     (initialGameState [\<lparr> pipe_id = 0, pipe_x = 600, gapY = g, gapHeight = h,
                          time = Some (Num 1), scored = None \<rparr>]) flapping_events =
     \<lparr> gameEnd = False, won = False,
       bird = \<lparr> bird_x = 180, bird_y = 240, bird_velocity = 5 \<rparr>, ghosts = None,
       pipes = [\<lparr> pipe_id = 0, pipe_x = 120, gapY = g, gapHeight = h,
                  time = Some (Num 1), scored = None \<rparr>],
       lives = 3, score = 0, gameTime = 160, hitCooldown = 0, totalPipes = 1,
       damageTicks = 0 \<rparr>"
  unfolding flapping_events_def initialGameState_def initialState_def
  by (simp add: tick_defs game_consts replicate_numeral_unfold playerFlapReducer_def)

lemma approach_state_eq:
  "approach_state =
     \<lparr> gameEnd = False, won = False,
       bird = \<lparr> bird_x = 180, bird_y = 240, bird_velocity = 5 \<rparr>, ghosts = None,
       pipes = [\<lparr> pipe_id = 0, pipe_x = 120, gapY = Num 40, gapHeight = Num 40,
                  time = Some (Num 1), scored = None \<rparr>],
       lives = 3, score = 0, gameTime = 160, hitCooldown = 0, totalPipes = 1,
       damageTicks = 0 \<rparr>"
  unfolding approach_state_def example_pipe_def by (rule approach_run)


section \<open>Cooldown-gated loss of lives\<close>

lemma physics_rect_ended: "gameEnd s \<Longrightarrow> physics_rect s = s"
  by (simp add: physics_rect_def)

lemma physics_rect_lives: "\<not> gameEnd s \<Longrightarrow> lives (physics_rect s) = rect_nextLives s"
  by (simp add: physics_rect_def)

lemma physics_rect_hitCooldown:
  "\<not> gameEnd s \<Longrightarrow> hitCooldown (physics_rect s) = rect_nextCooldownOut s"
  by (simp add: physics_rect_def)

lemma nextCooldown_zero_iff: "(tick_nextCooldown s = 0) = (hitCooldown s \<le> 1)"
  by (auto simp: tick_nextCooldown_def)

lemma floor_state_collided: "tick_collided floor_state"
  by (simp add: floor_state_eq tick_defs game_consts)

text \<open>
  Claim C1, as the code has it. On a tick of a game that has not ended the cooldown is
  first decremented by 1 with floor 0. A life is lost (lives decremented by 1 with
  floor 0, cooldown reset to \<open>HIT_COOLDOWN_TICKS\<close>) exactly when a collision was
  flagged on this tick and the decremented cooldown is 0, that is, when the cooldown
  before the decrement was at most 1; otherwise lives are unchanged and the decremented
  cooldown is kept. The same holds in the variant with rectangle collisions.
\<close>

theorem cooldown_gated_life_loss:
  "\<not> gameEnd s \<Longrightarrow>
     tick_nextCooldown s = max 0 (hitCooldown s - 1) \<and>
     lives (physics s) =
       (if tick_collided s \<and> hitCooldown s \<le> 1 then max 0 (lives s - 1) else lives s) \<and>
     hitCooldown (physics s) =
       (if tick_collided s \<and> hitCooldown s \<le> 1 then HIT_COOLDOWN_TICKS
        else max 0 (hitCooldown s - 1)) \<and>
     lives (physics_rect s) =
       (if rect_collided s \<and> hitCooldown s \<le> 1 then max 0 (lives s - 1) else lives s) \<and>
     hitCooldown (physics_rect s) =
       (if rect_collided s \<and> hitCooldown s \<le> 1 then HIT_COOLDOWN_TICKS
        else max 0 (hitCooldown s - 1))"
  by (simp add: physics_lives physics_hitCooldown physics_rect_lives physics_rect_hitCooldown
      tick_nextLives_def tick_nextCooldownOut_def rect_nextLives_def rect_nextCooldownOut_def
      nextCooldown_zero_iff)
    (simp add: tick_nextCooldown_def)

text \<open>
  The theorem at the state after one flap and 68 ticks: the bird lies on the floor, the
  cooldown is 1, and the next tick takes the second life and resets the cooldown to 30.
\<close>

theorem cooldown_gated_life_loss_witness:
  "\<not> gameEnd floor_state \<and> tick_collided floor_state \<and> hitCooldown floor_state \<le> 1 \<and>
   lives (physics floor_state) = 1 \<and> hitCooldown (physics floor_state) = 30"
proof -
  have a: "\<not> gameEnd floor_state" by (simp add: floor_state_eq)
  have b: "hitCooldown floor_state = 1" "lives floor_state = 2" by (simp_all add: floor_state_eq)
  show ?thesis
    using cooldown_gated_life_loss [OF a] a b floor_state_collided
    by (simp add: HIT_COOLDOWN_TICKS_def)
qed

text \<open>
  Claim C1 as stated asks for a cooldown of 0 before the decrement. In the state reached
  after one flap and 68 ticks the cooldown before the decrement is 1, and the tick takes
  a life all the same.
\<close>

theorem life_lost_with_nonzero_cooldown:
  "\<not> gameEnd floor_state \<and> hitCooldown floor_state = 1 \<and> tick_collided floor_state \<and>
   lives floor_state = 2 \<and> lives (physics floor_state) = 1"
  by (simp add: floor_state_eq tick_defs game_consts)

section \<open>Ticks after the end of the game\<close>

lemma ghostReducerPhysics_ended: "gameEnd s \<Longrightarrow> ghostReducerPhysics atl w s = s"
  by (simp add: ghostReducerPhysics_def)

text \<open>
  Claim C2, as the code has it. Once the game has ended, a tick returns the state as it
  is: no field changes, and the hit-cooldown and damage counters are frozen with the
  rest. This holds for the physics reducer, for the ghost physics reducer that runs on
  the same tick, and for the variant with rectangle collisions.
\<close>

theorem ended_tick_returns_state:
  "gameEnd s \<Longrightarrow> physics s = s \<and> ghostReducerPhysics atl w s = s \<and> physics_rect s = s"
  by (simp add: physics_ended ghostReducerPhysics_ended physics_rect_ended)

text \<open>The theorem at the state in which the third life has just been lost.\<close>

theorem ended_tick_returns_state_witness:
  "gameEnd lost_state \<and> physics lost_state = lost_state"
proof -
  have a: "gameEnd lost_state" by (simp add: lost_state_eq)
  from ended_tick_returns_state [OF a] a show ?thesis by simp
qed

text \<open>
  Claim C2 as stated lets the two counters go on decaying after the end. In the state
  in which the third life has just been lost both counters are 30, and they are still 30
  after the next tick.
\<close>

theorem ended_counters_do_not_decay:
  "gameEnd lost_state \<and> hitCooldown lost_state = 30 \<and> damageTicks lost_state = 30 \<and>
   hitCooldown (physics lost_state) = 30 \<and> damageTicks (physics lost_state) = 30"
  by (simp add: lost_state_eq physics_def)

section \<open>Lives along a run\<close>

lemma tick_nextLives_bounds:
  "0 \<le> lives s \<Longrightarrow> 0 \<le> tick_nextLives s \<and> tick_nextLives s \<le> lives s"
  by (simp add: tick_nextLives_def)

lemma step_lives:
  assumes "0 \<le> lives s" "lives s \<le> 3" "lives s = 0 \<longrightarrow> gameEnd s"
  shows "0 \<le> lives (step atl e s) \<and> lives (step atl e s) \<le> lives s
         \<and> (lives (step atl e s) = 0 \<longrightarrow> gameEnd (step atl e s))"
proof (cases e)
  case Tick
  show ?thesis
  proof (cases "gameEnd s")
    case True
    with Tick assms show ?thesis by (simp add: physics_ended)
  next
    case False
    with Tick assms tick_nextLives_bounds [of s] show ?thesis
      by (simp add: physics_lives physics_gameEnd)
  qed
next
  case Flap
  with assms show ?thesis by (auto simp: playerFlapReducer_def)
next
  case (GhostTick w)
  with assms show ?thesis by (auto simp: ghostReducerPhysics_def)
next
  case (GhostFlap idx w)
  with assms show ?thesis by (auto simp: ghostReducerFlap_def Let_def)
qed

lemma run_lives:
  assumes "0 \<le> lives s" "lives s \<le> 3" "lives s = 0 \<longrightarrow> gameEnd s"
  shows "0 \<le> lives (run atl s es) \<and> lives (run atl s es) \<le> 3
         \<and> (lives (run atl s es) = 0 \<longrightarrow> gameEnd (run atl s es))"
  using assms
proof (induction es arbitrary: s)
  case Nil
  then show ?case by simp
next
  case (Cons e es)
  have "0 \<le> lives (step atl e s)" "lives (step atl e s) \<le> 3"
    "lives (step atl e s) = 0 \<longrightarrow> gameEnd (step atl e s)"
    using step_lives [OF Cons.prems, of atl e] Cons.prems by auto
  from Cons.IH [OF this] show ?case by simp
qed

lemma initialGameState_lives:
  "lives (initialGameState ps) = 3" "\<not> gameEnd (initialGameState ps)"
  by (simp_all add: initialGameState_def initialState_def)

text \<open>
  Claim C7. In every state reached from the initial state of a level (lives = 3) by any
  sequence of ticks, flaps and ghost events, lives lie between 0 and 3, the next event
  does not increase them, and lives = 0 implies that the game has ended.
\<close>

theorem lives_bounded_nonincreasing:
  "0 \<le> lives (run atl (initialGameState ps) es) \<and>
   lives (run atl (initialGameState ps) es) \<le> 3 \<and>
   lives (step atl e (run atl (initialGameState ps) es))
     \<le> lives (run atl (initialGameState ps) es) \<and>
   (lives (run atl (initialGameState ps) es) = 0
      \<longrightarrow> gameEnd (run atl (initialGameState ps) es))"
proof -
  have inv: "0 \<le> lives (run atl (initialGameState ps) es)
     \<and> lives (run atl (initialGameState ps) es) \<le> 3
     \<and> (lives (run atl (initialGameState ps) es) = 0
          \<longrightarrow> gameEnd (run atl (initialGameState ps) es))"
    by (rule run_lives) (simp_all add: initialGameState_lives)
  then show ?thesis using step_lives [of "run atl (initialGameState ps) es" atl e] by simp
qed

text \<open>The theorem at the run of one flap and 99 ticks, which ends with no life left.\<close>

theorem lives_bounded_nonincreasing_witness:
  "lives lost_state = 0 \<and> gameEnd lost_state
   \<and> lives (step None Tick lost_state) \<le> lives lost_state"
proof -
  have a: "lives lost_state = 0" by (simp add: lost_state_eq)
  from lives_bounded_nonincreasing [of None "[example_pipe]" "Flap # replicate 99 Tick" Tick,
      folded lost_state_def] a
  show ?thesis by simp
qed

section \<open>The end of the game is final\<close>

lemma step_ended:
  "gameEnd s \<Longrightarrow> gameEnd (step atl e s) \<and> won (step atl e s) = won s"
  by (cases e) (simp_all add: physics_ended playerFlapReducer_def ghostReducerPhysics_def
      ghostReducerFlap_def Let_def)

text \<open>
  Claim C8. Once the game has ended, it has ended in every later state of the run,
  whatever ticks, flaps and ghost events follow, and \<open>won\<close> keeps its value.
\<close>

theorem end_of_game_is_final:
  "gameEnd s \<Longrightarrow> gameEnd (run atl s es) \<and> won (run atl s es) = won s"
proof (induction es arbitrary: s)
  case Nil
  then show ?case by simp
next
  case (Cons e es)
  from step_ended [OF Cons.prems, of atl e]
  have "gameEnd (step atl e s)" and w: "won (step atl e s) = won s" by simp_all
  from Cons.IH [OF this(1)] w show ?case by simp
qed

text \<open>The theorem at the lost game, followed by a tick, a flap, a ghost flap and a tick.\<close>

theorem end_of_game_is_final_witness:
  "gameEnd lost_state \<and>
   gameEnd (run None lost_state [Tick, Flap, GhostFlap 0 window_after_first_run, Tick]) \<and>
   \<not> won (run None lost_state [Tick, Flap, GhostFlap 0 window_after_first_run, Tick])"
proof -
  have a: "gameEnd lost_state" and b: "\<not> won lost_state" by (simp_all add: lost_state_eq)
  from end_of_game_is_final
         [OF a, of None "[Tick, Flap, GhostFlap 0 window_after_first_run, Tick]"] a b
  show ?thesis by simp
qed

section \<open>Level parsing never fails\<close>


lemma parseLoop_eq:
  "parseLoop Number lines i out =
     out @ map (\<lambda>j. parseLine Number j (lines ! j)) [i..<length lines]"
proof (induction Number lines i out rule: parseLoop.induct)
  case (1 Number lines i out)
  show ?case
  proof (cases "i < length lines")
    case True
    with "1.IH" show ?thesis
      by (subst parseLoop.simps) (simp add: upt_conv_Cons)
  next
    case False
    then show ?thesis by (subst parseLoop.simps) simp
  qed
qed

lemma splitOn_not_Nil: "splitOn sep str \<noteq> []"
  by (induction str) (auto split: list.splits)

lemma map_upt_shift: "map f [Suc 0..<Suc n] = map (\<lambda>i. f (Suc i)) [0..<n]"
  by (induction n) simp_all

lemma parsePipeData_eq:
  "parsePipeData Number csv =
     Inr (map (\<lambda>i. parseLine Number (Suc i) (dataLines csv ! i)) [0..<length (dataLines csv)])"
proof -
  obtain h ls where hl: "splitOn CHR 0x0A (trim csv) = h # ls"
    using splitOn_not_Nil [of "CHR 0x0A" "trim csv"] by (cases "splitOn CHR 0x0A (trim csv)") auto
  have "parsePipeData Number csv =
          Inr (map (\<lambda>j. parseLine Number j ((h # ls) ! j)) [Suc 0..<Suc (length ls)])"
    unfolding parsePipeData_def Let_def hl parseLoop_eq by simp
  also have "map (\<lambda>j. parseLine Number j ((h # ls) ! j)) [Suc 0..<Suc (length ls)]
        = map (\<lambda>i. parseLine Number (Suc i) (ls ! i)) [0..<length ls]"
    by (simp only: map_upt_shift nth_Cons_Suc)
  finally show ?thesis
    by (simp only: dataLines_def hl list.sel)
qed

lemma parseLine_fields:
  "pipe_id (parseLine Number (Suc i) line) = int i"
  "pipe_x (parseLine Number (Suc i) line) = CANVAS_WIDTH + of_nat i * PIPE_SPAWN_DISTANCE"
  "gapY (parseLine Number (Suc i) line) =
     (case fieldOf Number line 0 of Some (Num a) \<Rightarrow> Num (a * CANVAS_HEIGHT) | _ \<Rightarrow> NaN)"
  "gapHeight (parseLine Number (Suc i) line) =
     (case fieldOf Number line 1 of Some (Num a) \<Rightarrow> Num (a * CANVAS_HEIGHT) | _ \<Rightarrow> NaN)"
  "time (parseLine Number (Suc i) line) = fieldOf Number line 2"
  "scored (parseLine Number (Suc i) line) = None"
  by (simp_all add: parseLine_def fieldOf_def times_opt_def Let_def
      split: option.splits jsnum.splits)


lemma trim_example: "trim example_level = example_level"
  "trim header_only_level = header_only_level"
  "trim malformed_level = malformed_level"
  by (simp_all add: trim_def example_level_def header_only_level_def malformed_level_def isWhiteSpace_def)

lemma dataLines_examples:
  "dataLines example_level = [''0.1,0.1,1'']"
  "dataLines header_only_level = []"
  "dataLines malformed_level = [''abc'']"
  by (simp_all add: dataLines_def trim_example)
     (simp_all add: example_level_def header_only_level_def malformed_level_def)

lemma Number_dec_examples:
  "Number_dec ''0.1'' = Num (1 / 10)"
  "Number_dec ''1'' = Num 1"
  "Number_dec ''abc'' = NaN"
  by (simp_all add: Number_dec_def trim_def isWhiteSpace_def isDigit_def digitsValue_def Let_def)


lemma parse_example_level: "parsePipeData Number_dec example_level = Inr [example_pipe]"
  by (simp add: parsePipeData_eq dataLines_examples example_pipe_def parseLine_def
      index_opt_def Let_def Number_dec_examples times_opt_def game_consts)



section \<open>The empty level\<close>

lemma empty_level_first_tick:
  "gameEnd (physics (initialGameState [])) \<and> won (physics (initialGameState []))
   \<and> score (physics (initialGameState [])) = 0 \<and> lives (physics (initialGameState [])) = 3"
  by (simp add: initialGameState_def initialState_def tick_defs game_consts)

text \<open>
  Claim C10. A level text with no data line parses to the empty obstacle list, and the
  first tick of its run ends the game with \<open>won\<close> true and a score of 0.
\<close>

theorem empty_level_won_on_first_tick:
  "dataLines csv = [] \<Longrightarrow>
     \<exists>ps. parsePipeData Number csv = Inr ps \<and> ps = [] \<and>
       \<not> gameEnd (initialGameState ps) \<and>
       gameEnd (step atl Tick (initialGameState ps)) \<and>
       won (step atl Tick (initialGameState ps)) \<and>
       score (step atl Tick (initialGameState ps)) = 0"
  using empty_level_first_tick
  by (simp add: parsePipeData_eq initialGameState_lives)

text \<open>The theorem at the level text that holds the header only.\<close>

theorem empty_level_won_on_first_tick_witness:
  "dataLines header_only_level = [] \<and>
   parsePipeData Number_dec header_only_level = Inr [] \<and>
   gameEnd (step None Tick (initialGameState [])) \<and> won (step None Tick (initialGameState []))"
  using empty_level_won_on_first_tick [of header_only_level Number_dec None]
  by (simp add: dataLines_examples)

section \<open>Winning and losing on a tick\<close>

lemma step_won_ended:
  "won s \<longrightarrow> gameEnd s \<Longrightarrow> won (step atl e s) \<longrightarrow> gameEnd (step atl e s)"
proof (cases e)
  case Tick
  assume "won s \<longrightarrow> gameEnd s"
  with Tick show ?thesis
    by (cases "gameEnd s") (auto simp: physics_ended physics_won physics_gameEnd)
next
  case Flap
  assume "won s \<longrightarrow> gameEnd s"
  with Flap show ?thesis by (auto simp: playerFlapReducer_def)
next
  case (GhostTick w)
  assume "won s \<longrightarrow> gameEnd s"
  with GhostTick show ?thesis by (auto simp: ghostReducerPhysics_def)
next
  case (GhostFlap idx w)
  assume "won s \<longrightarrow> gameEnd s"
  with GhostFlap show ?thesis by (auto simp: ghostReducerFlap_def Let_def)
qed

lemma run_won_ended:
  "won s \<longrightarrow> gameEnd s \<Longrightarrow> won (run atl s es) \<longrightarrow> gameEnd (run atl s es)"
proof (induction es arbitrary: s)
  case Nil
  then show ?case by simp
next
  case (Cons e es)
  from Cons.IH [OF step_won_ended [OF Cons.prems]] show ?case by simp
qed

lemma initial_run_won_ended:
  "won (run atl (initialGameState ps) es) \<longrightarrow> gameEnd (run atl (initialGameState ps) es)"
  by (rule run_won_ended) (simp add: initialGameState_def initialState_def)

lemma physics_allPassed:
  "\<not> gameEnd s \<Longrightarrow>
     tick_allPassed s =
       (20 \<le> score (physics s) \<or> list_all (\<lambda>p. truthy (scored p)) (pipes (physics s)))"
  by (simp add: physics_score physics_pipes tick_allPassed_def)

text \<open>
  Claim C3, as the code has it. Take a state reached from the initial state of a level
  in which the game has not ended, and apply a tick. If lives remain positive after the
  tick, then end-of-game and \<open>won\<close> are both true after it exactly when the score has
  reached 20 or every active obstacle carries the passed mark (the mark is set whether
  the obstacle was passed inside its gap or with a collision, so the score need not have
  reached the total obstacle count). If the tick brings lives to 0, end-of-game is true
  and \<open>won\<close> is false.
\<close>

theorem win_and_loss_on_tick:
  "\<not> gameEnd (run atl (initialGameState ps) es) \<Longrightarrow>
     (0 < lives (physics (run atl (initialGameState ps) es)) \<longrightarrow>
        (gameEnd (physics (run atl (initialGameState ps) es))
           \<and> won (physics (run atl (initialGameState ps) es)))
        = (20 \<le> score (physics (run atl (initialGameState ps) es))
           \<or> list_all (\<lambda>p. truthy (scored p))
                (pipes (physics (run atl (initialGameState ps) es))))) \<and>
     (lives (physics (run atl (initialGameState ps) es)) = 0 \<longrightarrow>
        gameEnd (physics (run atl (initialGameState ps) es))
        \<and> \<not> won (physics (run atl (initialGameState ps) es)))"
proof -
  define s where "s = run atl (initialGameState ps) es"
  assume "\<not> gameEnd (run atl (initialGameState ps) es)"
  then have ne: "\<not> gameEnd s" by (simp add: s_def)
  have nw: "\<not> won s" using initial_run_won_ended [of atl ps es] ne by (auto simp: s_def)
  have "0 < lives (physics s) \<longrightarrow>
          (gameEnd (physics s) \<and> won (physics s))
          = (20 \<le> score (physics s) \<or> list_all (\<lambda>p. truthy (scored p)) (pipes (physics s)))"
    using ne nw physics_allPassed [OF ne]
    by (auto simp: physics_gameEnd physics_won physics_lives)
  moreover have "lives (physics s) = 0 \<longrightarrow> gameEnd (physics s) \<and> \<not> won (physics s)"
    using ne nw by (auto simp: physics_gameEnd physics_won physics_lives)
  ultimately show ?thesis by (simp add: s_def)
qed

text \<open>
  The theorem at the flapping run, whose next tick passes the only obstacle with two
  lives left, and at the run of one flap and 98 ticks, whose next tick takes the last
  life.
\<close>

theorem win_and_loss_on_tick_witness:
  "\<not> gameEnd approach_state \<and> 0 < lives (physics approach_state) \<and>
   gameEnd (physics approach_state) \<and> won (physics approach_state) \<and>
   \<not> gameEnd last_life_state \<and> lives (physics last_life_state) = 0 \<and>
   gameEnd (physics last_life_state) \<and> \<not> won (physics last_life_state)"
proof -
  have a: "\<not> gameEnd approach_state" by (simp add: approach_state_eq)
  have b: "\<not> gameEnd last_life_state" by (simp add: last_life_state_eq)
  have c: "lives (physics approach_state) = 2"
    "list_all (\<lambda>p. truthy (scored p)) (pipes (physics approach_state))"
    by (simp_all add: approach_state_eq tick_defs game_consts)
  have d: "lives (physics last_life_state) = 0"
    by (simp add: lost_state_from_last_life [symmetric] lost_state_eq)
  from win_and_loss_on_tick [of None "[example_pipe]" flapping_events, folded approach_state_def, OF a]
    win_and_loss_on_tick [of None "[example_pipe]" "Flap # replicate 98 Tick",
      folded last_life_state_def, OF b]
    a b c d
  show ?thesis by simp
qed

text \<open>
  Claim C3 as stated equates "every obstacle marked passed" with "score has reached the
  total obstacle count". In the flapping run the bird passes the only obstacle outside
  its gap: the obstacle is marked passed and the game is won, with score 0 and a total
  obstacle count of 1.
\<close>

theorem won_below_total_obstacle_count:
  "\<not> gameEnd approach_state \<and> 0 < lives (physics approach_state) \<and>
   list_all (\<lambda>p. truthy (scored p)) (pipes (physics approach_state)) \<and>
   gameEnd (physics approach_state) \<and> won (physics approach_state) \<and>
   score (physics approach_state) = 0 \<and> totalPipes (physics approach_state) = 1"
  by (simp add: approach_state_eq tick_defs game_consts)

section \<open>Passed flags and the score\<close>


















lemma parsePipeData_distinct_ids:
  "parsePipeData Number csv = Inr ps \<Longrightarrow> distinct (map pipe_id ps)"
proof -
  assume "parsePipeData Number csv = Inr ps"
  then have "map pipe_id ps = map int [0..<length (dataLines csv)]"
    by (auto simp: parsePipeData_eq parseLine_fields)
  then show ?thesis by (simp add: distinct_map inj_on_def)
qed



section \<open>Ghosts\<close>








section \<open>Recording a run\<close>

lemma sameTicks_iff: "sameTicks old arr = (old = arr)"
  unfolding sameTicks_def
proof (induction old arbitrary: arr)
  case Nil
  show ?case by auto
next
  case (Cons v old)
  show ?case by (cases arr) (auto simp: Cons.IH [symmetric])
qed

lemma recordRun_flap_ticks:
  "allRunFlapTicksArrays (recordRun arr w) =
     (case allRunFlapTicksArrays w of
        None \<Rightarrow> Some [arr]
      | Some a \<Rightarrow> if arr \<in> set a then Some a else Some (a @ [arr]))"
  by (auto simp: recordRun_def Let_def sameTicks_iff list_ex_iff split: option.splits)

lemma recordRun_flap_ticks_idempotent:
  "allRunFlapTicksArrays (recordRun arr (recordRun arr w))
     = allRunFlapTicksArrays (recordRun arr w)"
  by (simp add: recordRun_flap_ticks split: option.splits)

lemma end_tick_of_first_run: "physics_window last_life_state initialWindow = window_at_first_end"
proof -
  have a: "\<not> gameEnd last_life_state" by (simp add: last_life_state_eq)
  have b: "gameEnd (physics last_life_state)" "gameTime (physics last_life_state) = 99"
    by (simp_all add: lost_state_from_last_life [symmetric] lost_state_eq)
  show ?thesis
    by (simp add: physics_window_def a b initialWindow_def window_at_first_end_def)
qed



end
